theory Spec2Isabelle
  imports Main
begin

section \<open>Values exchanged with the RPC client\<close>

text \<open>
  The hooks of \<^verbatim>\<open>read.ts\<close> and \<^verbatim>\<open>transaction.ts\<close> pass addresses, ABIs, transaction
  hashes and JavaScript \<^verbatim>\<open>Error\<close> objects through without looking inside them.
  An address and a hash are values of the template type \<^verbatim>\<open>0x${string}\<close> (never the empty
  string, so a hash that is present is truthy); an \<^verbatim>\<open>Error\<close> is an object with an
  identity and a message; a \<^verbatim>\<open>bigint\<close> is an unbounded integer.
\<close>

datatype address = Address string

datatype hash = Hash string

datatype error = Error nat string

type_synonym abi = "string list"

datatype arg = ArgAddress address | ArgBigInt int | ArgString string | ArgBool bool

text \<open>A callback passed by the caller is a function object; only its identity and the
  calls made to it are visible to the hook.\<close>

datatype callback = Callback nat


section \<open>The read hook (\<^verbatim>\<open>read.ts\<close>)\<close>

record UseUniversalReadContractParams =
  functionName :: string
  args :: "arg list option"
  address :: "address option"
  abi :: "abi option"
  enabled :: "bool option"
  watch :: "bool option"
  chainId :: "int option"

text \<open>The object handed to \<^verbatim>\<open>useReadContract\<close>; \<^verbatim>\<open>query_enabled\<close> is the field
  \<^verbatim>\<open>query: { enabled }\<close>.\<close>

record readQuery =
  address :: address
  abi :: abi
  functionName :: string
  args :: "arg list"
  query_enabled :: bool
  watch :: bool
  chainId :: "int option"

text \<open>The seven fields of \<^verbatim>\<open>UseUniversalReadContractReturn\<close>. The primitive's own result
  is any extension of this record (it has further fields); \<^verbatim>\<open>refetch\<close> is a function
  object, known by its identity.\<close>

record 'd UseUniversalReadContractReturn =
  data :: "'d option"
  isLoading :: bool
  isError :: bool
  error :: "error option"
  refetch :: callback
  isSuccess :: bool
  isFetching :: bool

text \<open>\<^verbatim>\<open>DEFAULT_CONTRACT_ADDRESS\<close> and \<^verbatim>\<open>DEFAULT_CONTRACT_ABI\<close> are imported from
  \<^verbatim>\<open>@/config/contracts\<close>, and \<^verbatim>\<open>useReadContract\<close> from the client library: all three
  are parameters here. A JavaScript default (\<^verbatim>\<open>args = []\<close>) replaces an omitted
  (\<^verbatim>\<open>undefined\<close>) parameter.\<close>

definition useUniversalReadContract ::
  "(readQuery \<Rightarrow> ('d, 'z) UseUniversalReadContractReturn_scheme) \<Rightarrow> address \<Rightarrow> abi \<Rightarrow>
   UseUniversalReadContractParams \<Rightarrow> 'd UseUniversalReadContractReturn" where
  "useUniversalReadContract useReadContract DEFAULT_CONTRACT_ADDRESS DEFAULT_CONTRACT_ABI ps =
     (let functionName = UseUniversalReadContractParams.functionName ps;
          args = (case UseUniversalReadContractParams.args ps of None \<Rightarrow> [] | Some v \<Rightarrow> v);
          address = (case UseUniversalReadContractParams.address ps of
                       None \<Rightarrow> DEFAULT_CONTRACT_ADDRESS | Some v \<Rightarrow> v);
          abi = (case UseUniversalReadContractParams.abi ps of
                   None \<Rightarrow> DEFAULT_CONTRACT_ABI | Some v \<Rightarrow> v);
          enabled = (case UseUniversalReadContractParams.enabled ps of
                       None \<Rightarrow> True | Some v \<Rightarrow> v);
          watch = (case UseUniversalReadContractParams.watch ps of None \<Rightarrow> False | Some v \<Rightarrow> v);
          chainId = UseUniversalReadContractParams.chainId ps;
          r = useReadContract
                \<lparr> readQuery.address = address, readQuery.abi = abi,
                  readQuery.functionName = functionName, readQuery.args = args,
                  query_enabled = enabled, readQuery.watch = watch,
                  readQuery.chainId = chainId \<rparr>
      in \<lparr> data = data r, isLoading = isLoading r, isError = isError r, error = error r,
           refetch = refetch r, isSuccess = isSuccess r, isFetching = isFetching r \<rparr>)"

text \<open>The read delegate as the specification words it: every omitted parameter is
  replaced by its default, the query is forwarded, and the primitive's seven result
  fields come back as they are.\<close>

definition orDefault :: "'a \<Rightarrow> 'a option \<Rightarrow> 'a" where
  "orDefault d v = (case v of None \<Rightarrow> d | Some x \<Rightarrow> x)"

definition forwardedQuery :: "address \<Rightarrow> abi \<Rightarrow> UseUniversalReadContractParams \<Rightarrow> readQuery" where
  "forwardedQuery defaultAddress defaultAbi ps =
     \<lparr> readQuery.address = orDefault defaultAddress (UseUniversalReadContractParams.address ps),
       readQuery.abi = orDefault defaultAbi (UseUniversalReadContractParams.abi ps),
       readQuery.functionName = UseUniversalReadContractParams.functionName ps,
       readQuery.args = orDefault [] (UseUniversalReadContractParams.args ps),
       query_enabled = orDefault True (UseUniversalReadContractParams.enabled ps),
       readQuery.watch = orDefault False (UseUniversalReadContractParams.watch ps),
       readQuery.chainId = UseUniversalReadContractParams.chainId ps \<rparr>"

definition readDelegateSpec ::
  "(readQuery \<Rightarrow> ('d, 'z) UseUniversalReadContractReturn_scheme) \<Rightarrow> address \<Rightarrow> abi \<Rightarrow>
   UseUniversalReadContractParams \<Rightarrow> 'd UseUniversalReadContractReturn" where
  "readDelegateSpec primitive defaultAddress defaultAbi ps =
     UseUniversalReadContractReturn.truncate (primitive (forwardedQuery defaultAddress defaultAbi ps))"


section \<open>The transaction hook (\<^verbatim>\<open>transaction.ts\<close>): data\<close>

text \<open>The \<^verbatim>\<open>TransactionState\<close> the hook returns, without its two actions \<^verbatim>\<open>execute\<close> and
  \<^verbatim>\<open>reset\<close>, which are modelled below as functions on the hook's state.\<close>

record TransactionState =
  isApproving :: bool
  isApprovingConfirming :: bool
  isTransacting :: bool
  isTransactionConfirming :: bool
  isLoading :: bool
  isApprovalSuccess :: bool
  isTransactionSuccess :: bool
  isComplete :: bool
  approvalError :: "error option"
  transactionError :: "error option"
  approvalConfirmError :: "error option"
  transactionConfirmError :: "error option"
  approvalHash :: "hash option"
  transactionHash :: "hash option"

datatype amount = AmountBigInt int | AmountString string

record ApprovalConfig =
  tokenAddress :: address
  tokenAbi :: abi
  spenderAddress :: address
  amount :: amount
  decimals :: "int option"

record TransactionConfig =
  contractAddress :: address
  contractAbi :: abi
  functionName :: string
  args :: "arg list option"

record UseUniversalTransactionParams =
  approvalConfig :: "ApprovalConfig option"
  transactionConfig :: TransactionConfig
  onApprovalSuccess :: "callback option"
  onTransactionSuccess :: "callback option"
  onApprovalError :: "callback option"
  onTransactionError :: "callback option"
  onFinalSuccess :: "callback option"

text \<open>The six \<^verbatim>\<open>useState\<close> cells of the hook.\<close>

record hookState =
  approvalHash :: "hash option"
  transactionHash :: "hash option"
  isApproving :: bool
  isTransacting :: bool
  approvalError :: "error option"
  transactionError :: "error option"

definition initialState :: hookState where
  "initialState =
     \<lparr> approvalHash = None, transactionHash = None, isApproving = False,
       isTransacting = False, approvalError = None, transactionError = None \<rparr>"

text \<open>What the four hooks of the client library report at one render: the two
  \<^verbatim>\<open>useWriteContract\<close> clients (\<^verbatim>\<open>data\<close>, \<^verbatim>\<open>error\<close>) and the two
  \<^verbatim>\<open>useWaitForTransactionReceipt\<close> watchers (\<^verbatim>\<open>isLoading\<close>, \<^verbatim>\<open>isSuccess\<close>,
  \<^verbatim>\<open>error\<close>), under the names the hook gives them.\<close>

record wagmi =
  approvalData :: "hash option"
  approvalWriteError :: "error option"
  transactionData :: "hash option"
  transactionWriteError :: "error option"
  isApprovingConfirming :: bool
  isApprovalSuccess :: bool
  approvalConfirmError :: "error option"
  isTransactionConfirming :: bool
  isTransactionSuccess :: bool
  transactionConfirmError :: "error option"

text \<open>The object passed to \<^verbatim>\<open>writeContract\<close>.\<close>

record writeRequest =
  address :: address
  abi :: abi
  functionName :: string
  args :: "arg list"

text \<open>Everything the hook does to the outside: calls of the two write primitives, of the
  two client resets, and of the caller's callbacks.\<close>

datatype action =
    WriteApproval writeRequest
  | WriteTransaction writeRequest
  | ResetApproval
  | ResetTransaction
  | OnApprovalSuccess callback hash
  | OnTransactionSuccess callback hash
  | OnApprovalError callback error
  | OnTransactionError callback error
  | OnFinalSuccess callback

text \<open>The synchronous behaviour of the library functions the hook calls inside its
  \<^verbatim>\<open>try\<close> blocks: \<^verbatim>\<open>parseUnits\<close> (of viem) returns a \<^verbatim>\<open>bigint\<close> or throws, and a call
  of a write primitive returns or throws. They are parameters of the model.\<close>

record env =
  parseUnits :: "string \<Rightarrow> int \<Rightarrow> error + int"
  writeApprovalThrows :: "writeRequest \<Rightarrow> error option"
  writeTransactionThrows :: "writeRequest \<Rightarrow> error option"


section \<open>The transaction hook: the returned state\<close>

definition useUniversalTransaction ::
  "UseUniversalTransactionParams \<Rightarrow> wagmi \<Rightarrow> hookState \<Rightarrow> TransactionState" where
  "useUniversalTransaction p w s =
     (let isLoading =
            (isApproving s \<or> isApprovingConfirming w \<or> isTransacting s \<or>
             isTransactionConfirming w);
          isComplete =
            ((if approvalConfig p \<noteq> None then isApprovalSuccess w else True) \<and>
             isTransactionSuccess w)
      in \<lparr> TransactionState.isApproving = isApproving s,
           TransactionState.isApprovingConfirming = isApprovingConfirming w,
           TransactionState.isTransacting = isTransacting s,
           TransactionState.isTransactionConfirming = isTransactionConfirming w,
           TransactionState.isLoading = isLoading,
           TransactionState.isApprovalSuccess = isApprovalSuccess w,
           TransactionState.isTransactionSuccess = isTransactionSuccess w,
           TransactionState.isComplete = isComplete,
           TransactionState.approvalError = approvalError s,
           TransactionState.transactionError = transactionError s,
           TransactionState.approvalConfirmError = approvalConfirmError w,
           TransactionState.transactionConfirmError = transactionConfirmError w,
           TransactionState.approvalHash = approvalHash s,
           TransactionState.transactionHash = transactionHash s \<rparr>)"


section \<open>The transaction hook: the two steps and the two actions\<close>

text \<open>A \<^verbatim>\<open>setState\<close> call inside a handler or an effect is queued, and the queue is
  applied in order: a function of the hook takes the queued state and what was done so
  far, and returns both extended. Every setter of the hook stores a value (none is a
  functional update), so applying the queue in order is record update in order.\<close>

type_synonym pending = "hookState \<times> action list"

text \<open>\<^verbatim>\<open>cb?.(x)\<close>: the call is made when the callback was provided.\<close>

definition invoke :: "callback option \<Rightarrow> (callback \<Rightarrow> action) \<Rightarrow> action list" where
  "invoke cb call = (case cb of None \<Rightarrow> [] | Some c \<Rightarrow> [call c])"

text \<open>\<^verbatim>\<open>typeof amount === 'string' ? parseUnits(amount, decimals) : amount\<close>, with
  \<^verbatim>\<open>decimals = 18\<close> when the field is omitted. \<^verbatim>\<open>Inl\<close> is the error thrown.\<close>

definition approvalAmount :: "env \<Rightarrow> ApprovalConfig \<Rightarrow> error + int" where
  "approvalAmount e c =
     (let decimals = (case decimals c of None \<Rightarrow> 18 | Some d \<Rightarrow> d)
      in case amount c of
           AmountString a \<Rightarrow> parseUnits e a decimals
         | AmountBigInt a \<Rightarrow> Inr a)"

text \<open>The three statements the hook repeats wherever an error of the approval (of the
  transaction) is handled: in the \<^verbatim>\<open>catch\<close> block and in the \<^verbatim>\<open>onError\<close> callback of
  the write.\<close>

definition approvalFailed :: "UseUniversalTransactionParams \<Rightarrow> error \<Rightarrow> pending \<Rightarrow> pending" where
  "approvalFailed p err q =
     ((fst q)\<lparr>approvalError := Some err, isApproving := False\<rparr>,
      snd q @ invoke (onApprovalError p) (\<lambda>cb. OnApprovalError cb err))"

definition transactionFailed :: "UseUniversalTransactionParams \<Rightarrow> error \<Rightarrow> pending \<Rightarrow> pending" where
  "transactionFailed p err q =
     ((fst q)\<lparr>transactionError := Some err, isTransacting := False\<rparr>,
      snd q @ invoke (onTransactionError p) (\<lambda>cb. OnTransactionError cb err))"

definition executeApproval :: "env \<Rightarrow> UseUniversalTransactionParams \<Rightarrow> pending \<Rightarrow> pending" where
  "executeApproval e p q =
     (case approvalConfig p of
        None \<Rightarrow> q
      | Some c \<Rightarrow>
          (let q1 = ((fst q)\<lparr>isApproving := True, approvalError := None\<rparr>, snd q)
           in (case approvalAmount e c of
                 Inl err \<Rightarrow> approvalFailed p err q1
               | Inr amt \<Rightarrow>
                   (let request =
                          \<lparr> address = tokenAddress c, abi = tokenAbi c,
                            functionName = ''approve'',
                            args = [ArgAddress (spenderAddress c), ArgBigInt amt] \<rparr>;
                        q2 = (fst q1, snd q1 @ [WriteApproval request])
                    in (case writeApprovalThrows e request of
                          None \<Rightarrow> q2
                        | Some err \<Rightarrow> approvalFailed p err q2)))))"

definition executeTransaction :: "env \<Rightarrow> UseUniversalTransactionParams \<Rightarrow> pending \<Rightarrow> pending" where
  "executeTransaction e p q =
     (let q1 = ((fst q)\<lparr>isTransacting := True, transactionError := None\<rparr>, snd q);
          c = transactionConfig p;
          request =
            \<lparr> address = contractAddress c, abi = contractAbi c,
              functionName = TransactionConfig.functionName c,
              args = (case TransactionConfig.args c of None \<Rightarrow> [] | Some a \<Rightarrow> a) \<rparr>;
          q2 = (fst q1, snd q1 @ [WriteTransaction request])
      in case writeTransactionThrows e request of
           None \<Rightarrow> q2
         | Some err \<Rightarrow> transactionFailed p err q2)"

text \<open>The \<^verbatim>\<open>onError\<close> callbacks handed to the two write primitives, which the client
  library calls when the submitted write fails.\<close>

definition approvalOnError :: "UseUniversalTransactionParams \<Rightarrow> error \<Rightarrow> pending \<Rightarrow> pending" where
  "approvalOnError p err q = approvalFailed p err q"

definition transactionOnError :: "UseUniversalTransactionParams \<Rightarrow> error \<Rightarrow> pending \<Rightarrow> pending" where
  "transactionOnError p err q = transactionFailed p err q"

definition reset :: "pending \<Rightarrow> pending" where
  "reset q =
     ((fst q)\<lparr>approvalHash := None, transactionHash := None, isApproving := False,
              isTransacting := False, approvalError := None, transactionError := None\<rparr>,
      snd q @ [ResetApproval, ResetTransaction])"

definition execute :: "env \<Rightarrow> UseUniversalTransactionParams \<Rightarrow> pending \<Rightarrow> pending" where
  "execute e p q =
     (let q1 = ((fst q)\<lparr>approvalHash := None, transactionHash := None, approvalError := None,
                       transactionError := None, isApproving := False,
                       isTransacting := False\<rparr>,
                snd q @ [ResetApproval, ResetTransaction])
      in if approvalConfig p \<noteq> None then executeApproval e p q1
         else executeTransaction e p q1)"


section \<open>The transaction hook: renders and effects\<close>

text \<open>One render sees the parameters passed to the hook, what the client library reports
  and the state cells. Its effects are closures over these values: an effect reads the
  snapshot of its own render, never what an earlier effect of the same pass has queued.
  An effect runs after the first render and after every render in which one of its
  dependencies differs from the previous render's.\<close>

record snapshot =
  props :: UseUniversalTransactionParams
  client :: wagmi
  cells :: hookState

definition changed :: "snapshot option \<Rightarrow> snapshot \<Rightarrow> (snapshot \<Rightarrow> 'a) \<Rightarrow> bool" where
  "changed previous cur dep = (case previous of None \<Rightarrow> True | Some old \<Rightarrow> dep old \<noteq> dep cur)"

definition effect_approvalData :: "snapshot option \<Rightarrow> snapshot \<Rightarrow> pending \<Rightarrow> pending" where
  "effect_approvalData previous cur q =
     (if changed previous cur (\<lambda>r. approvalData (client r)) then
        (case approvalData (client cur) of
           Some h \<Rightarrow> ((fst q)\<lparr>approvalHash := Some h\<rparr>, snd q)
         | None \<Rightarrow> q)
      else q)"

definition effect_transactionData :: "snapshot option \<Rightarrow> snapshot \<Rightarrow> pending \<Rightarrow> pending" where
  "effect_transactionData previous cur q =
     (if changed previous cur (\<lambda>r. transactionData (client r)) then
        (case transactionData (client cur) of
           Some h \<Rightarrow> ((fst q)\<lparr>transactionHash := Some h\<rparr>, snd q)
         | None \<Rightarrow> q)
      else q)"

definition effect_approvalWriteError :: "snapshot option \<Rightarrow> snapshot \<Rightarrow> pending \<Rightarrow> pending" where
  "effect_approvalWriteError previous cur q =
     (if changed previous cur (\<lambda>r. (approvalWriteError (client r), onApprovalError (props r))) then
        (case approvalWriteError (client cur) of
           Some err \<Rightarrow>
             ((fst q)\<lparr>approvalError := Some err, isApproving := False\<rparr>,
              snd q @ invoke (onApprovalError (props cur)) (\<lambda>cb. OnApprovalError cb err))
         | None \<Rightarrow> q)
      else q)"

definition effect_transactionWriteError :: "snapshot option \<Rightarrow> snapshot \<Rightarrow> pending \<Rightarrow> pending" where
  "effect_transactionWriteError previous cur q =
     (if changed previous cur
           (\<lambda>r. (transactionWriteError (client r), onTransactionError (props r))) then
        (case transactionWriteError (client cur) of
           Some err \<Rightarrow>
             ((fst q)\<lparr>transactionError := Some err, isTransacting := False\<rparr>,
              snd q @ invoke (onTransactionError (props cur)) (\<lambda>cb. OnTransactionError cb err))
         | None \<Rightarrow> q)
      else q)"

definition effect_approvalConfirmError :: "snapshot option \<Rightarrow> snapshot \<Rightarrow> pending \<Rightarrow> pending" where
  "effect_approvalConfirmError previous cur q =
     (if changed previous cur
           (\<lambda>r. (approvalConfirmError (client r), onApprovalError (props r))) then
        (case approvalConfirmError (client cur) of
           Some err \<Rightarrow>
             ((fst q)\<lparr>approvalError := Some err, isApproving := False\<rparr>,
              snd q @ invoke (onApprovalError (props cur)) (\<lambda>cb. OnApprovalError cb err))
         | None \<Rightarrow> q)
      else q)"

definition effect_transactionConfirmError ::
  "snapshot option \<Rightarrow> snapshot \<Rightarrow> pending \<Rightarrow> pending" where
  "effect_transactionConfirmError previous cur q =
     (if changed previous cur
           (\<lambda>r. (transactionConfirmError (client r), onTransactionError (props r))) then
        (case transactionConfirmError (client cur) of
           Some err \<Rightarrow>
             ((fst q)\<lparr>transactionError := Some err, isTransacting := False\<rparr>,
              snd q @ invoke (onTransactionError (props cur)) (\<lambda>cb. OnTransactionError cb err))
         | None \<Rightarrow> q)
      else q)"

text \<open>The approval-success effect. Its condition is
  \<^verbatim>\<open>isApprovalSuccess && approvalHash && !isTransacting && !transactionHash\<close>.\<close>

definition approvalSuccessCondition :: "snapshot \<Rightarrow> bool" where
  "approvalSuccessCondition cur =
     (isApprovalSuccess (client cur) \<and> approvalHash (cells cur) \<noteq> None \<and>
      \<not> isTransacting (cells cur) \<and> \<not> (transactionHash (cells cur) \<noteq> None))"

definition effect_approvalSuccess ::
  "env \<Rightarrow> snapshot option \<Rightarrow> snapshot \<Rightarrow> pending \<Rightarrow> pending" where
  "effect_approvalSuccess e previous cur q =
     (if changed previous cur (\<lambda>r. (isApprovalSuccess (client r), approvalHash (cells r))) then
        (if approvalSuccessCondition cur then
           (case approvalHash (cells cur) of
              None \<Rightarrow> q
            | Some h \<Rightarrow>
                executeTransaction e (props cur)
                  ((fst q)\<lparr>isApproving := False\<rparr>,
                   snd q @ invoke (onApprovalSuccess (props cur)) (\<lambda>cb. OnApprovalSuccess cb h)))
         else q)
      else q)"

definition effect_transactionSuccess :: "snapshot option \<Rightarrow> snapshot \<Rightarrow> pending \<Rightarrow> pending" where
  "effect_transactionSuccess previous cur q =
     (if changed previous cur
           (\<lambda>r. (isTransactionSuccess (client r), transactionHash (cells r))) then
        (if isTransactionSuccess (client cur) then
           (case transactionHash (cells cur) of
              None \<Rightarrow> q
            | Some h \<Rightarrow>
                ((fst q)\<lparr>isTransacting := False\<rparr>,
                 snd q @ invoke (onTransactionSuccess (props cur))
                           (\<lambda>cb. OnTransactionSuccess cb h)
                       @ invoke (onFinalSuccess (props cur)) OnFinalSuccess))
         else q)
      else q)"

text \<open>The effects of one render, in the order the hook declares them.\<close>

definition runEffects :: "env \<Rightarrow> snapshot option \<Rightarrow> snapshot \<Rightarrow> pending \<Rightarrow> pending" where
  "runEffects e previous cur q =
     effect_transactionSuccess previous cur
       (effect_approvalSuccess e previous cur
         (effect_transactionConfirmError previous cur
           (effect_approvalConfirmError previous cur
             (effect_transactionWriteError previous cur
               (effect_approvalWriteError previous cur
                 (effect_transactionData previous cur
                   (effect_approvalData previous cur q)))))))"

text \<open>The mounted component: its state cells and the snapshot of its last render (none
  before the first one).\<close>

record component =
  state :: hookState
  lastRender :: "snapshot option"

definition mount :: component where
  "mount = \<lparr> state = initialState, lastRender = None \<rparr>"

definition render ::
  "env \<Rightarrow> UseUniversalTransactionParams \<Rightarrow> wagmi \<Rightarrow> component \<Rightarrow> component \<times> action list" where
  "render e p w m =
     (let cur = \<lparr> props = p, client = w, cells = state m \<rparr>;
          q = runEffects e (lastRender m) cur (state m, [])
      in (\<lparr> state = fst q, lastRender = Some cur \<rparr>, snd q))"

text \<open>What can happen to the mounted hook: a render (with the parameters and the client
  reports of that render), a call of \<^verbatim>\<open>execute\<close> or \<^verbatim>\<open>reset\<close>, and a call by the
  client library of one of the two \<^verbatim>\<open>onError\<close> callbacks. An action or callback is a
  closure over the parameters of the render that created it.\<close>

datatype event =
    Render UseUniversalTransactionParams wagmi
  | Execute UseUniversalTransactionParams
  | Reset
  | ApprovalWriteFailed UseUniversalTransactionParams error
  | TransactionWriteFailed UseUniversalTransactionParams error

definition handler :: "(pending \<Rightarrow> pending) \<Rightarrow> component \<Rightarrow> component \<times> action list" where
  "handler f m = (let q = f (state m, []) in (m\<lparr>state := fst q\<rparr>, snd q))"

fun step :: "env \<Rightarrow> event \<Rightarrow> component \<Rightarrow> component \<times> action list" where
  "step e (Render p w) m = render e p w m"
| "step e (Execute p) m = handler (execute e p) m"
| "step e Reset m = handler reset m"
| "step e (ApprovalWriteFailed p err) m = handler (approvalOnError p err) m"
| "step e (TransactionWriteFailed p err) m = handler (transactionOnError p err) m"

text \<open>A run of the hook: for every event, the component before it, the event, what the
  hook did in response, and the component after it.\<close>

record entry =
  before :: component
  occurred :: event
  emitted :: "action list"
  after :: component

fun run :: "env \<Rightarrow> component \<Rightarrow> event list \<Rightarrow> entry list" where
  "run e m [] = []"
| "run e m (ev # evs) =
     (let r = step e ev m
      in \<lparr> before = m, occurred = ev, emitted = snd r, after = fst r \<rparr> # run e (fst r) evs)"

fun transactionWrites :: "action list \<Rightarrow> writeRequest list" where
  "transactionWrites [] = []"
| "transactionWrites (WriteTransaction r # as) = r # transactionWrites as"
| "transactionWrites (a # as) = transactionWrites as"

fun approvalWrites :: "action list \<Rightarrow> writeRequest list" where
  "approvalWrites [] = []"
| "approvalWrites (WriteApproval r # as) = r # approvalWrites as"
| "approvalWrites (a # as) = approvalWrites as"


section \<open>Runs of the hook: executions, the client library's contract, failures\<close>

text \<open>The request \<^verbatim>\<open>executeTransaction\<close> builds from \<^verbatim>\<open>transactionConfig\<close>.\<close>

definition transactionRequest :: "UseUniversalTransactionParams \<Rightarrow> writeRequest" where
  "transactionRequest p =
     \<lparr> address = contractAddress (transactionConfig p), abi = contractAbi (transactionConfig p),
       functionName = TransactionConfig.functionName (transactionConfig p),
       args = (case TransactionConfig.args (transactionConfig p) of None \<Rightarrow> [] | Some a \<Rightarrow> a) \<rparr>"

text \<open>The approval-success effect runs (a dependency changed) and its condition holds.\<close>

definition approvalSuccessFires :: "snapshot option \<Rightarrow> snapshot \<Rightarrow> bool" where
  "approvalSuccessFires previous cur =
     (changed previous cur (\<lambda>r. (isApprovalSuccess (client r), approvalHash (cells r))) \<and>
      approvalSuccessCondition cur)"

text \<open>Everything the hook did during a run, in order.\<close>

definition allEmitted :: "entry list \<Rightarrow> action list" where
  "allEmitted log = concat (map emitted log)"

text \<open>The hook is used with, or without, an \<^verbatim>\<open>approvalConfig\<close>.\<close>

definition approvalProvided :: "event \<Rightarrow> bool" where
  "approvalProvided ev =
     (case ev of
        Render p w \<Rightarrow> approvalConfig p \<noteq> None
      | Execute p \<Rightarrow> approvalConfig p \<noteq> None
      | Reset \<Rightarrow> True
      | ApprovalWriteFailed p err \<Rightarrow> approvalConfig p \<noteq> None
      | TransactionWriteFailed p err \<Rightarrow> approvalConfig p \<noteq> None)"

definition approvalOmitted :: "event \<Rightarrow> bool" where
  "approvalOmitted ev =
     (case ev of
        Render p w \<Rightarrow> approvalConfig p = None
      | Execute p \<Rightarrow> approvalConfig p = None
      | Reset \<Rightarrow> True
      | ApprovalWriteFailed p err \<Rightarrow> approvalConfig p = None
      | TransactionWriteFailed p err \<Rightarrow> approvalConfig p = None)"


text \<open>The narrow contract of the client library the hook relies on (submit a call,
  receive a handle; wait on a handle, receive success or failure), as far as the
  theorems below need it. None of it is code of this repository: each part is a
  hypothesis of the theorem that uses it.

  The transaction client reports a handle (\<^verbatim>\<open>transactionData\<close>) only for a write that
  was submitted to it and not cleared by its \<^verbatim>\<open>reset\<close> since.\<close>

fun submitted :: "bool \<Rightarrow> action list \<Rightarrow> bool" where
  "submitted sub [] = sub"
| "submitted sub (WriteTransaction r # as) = submitted True as"
| "submitted sub (ResetTransaction # as) = submitted False as"
| "submitted sub (a # as) = submitted sub as"

fun transactionClientContract :: "bool \<Rightarrow> entry list \<Rightarrow> bool" where
  "transactionClientContract sub [] = True"
| "transactionClientContract sub (en # ens) =
     ((case occurred en of
         Render p w \<Rightarrow> transactionData w = None \<or> sub
       | _ \<Rightarrow> True) \<and>
      transactionClientContract (submitted sub (emitted en)) ens)"














section \<open>Sample inputs\<close>

text \<open>A stand-in for viem's \<^verbatim>\<open>parseUnits\<close> on the inputs used below: a string of
  decimal digits is scaled by ten to the power \<^verbatim>\<open>decimals\<close>, and a string that is not a
  decimal number is refused with an error, as the library does.\<close>

fun digitsValue :: "int \<Rightarrow> string \<Rightarrow> int option" where
  "digitsValue acc [] = Some acc"
| "digitsValue acc (c # cs) =
     (if (48::nat) \<le> of_char c \<and> (of_char c :: nat) \<le> 57
      then digitsValue (10 * acc + (int (of_char c) - 48)) cs
      else None)"

definition sampleParseUnits :: "string \<Rightarrow> int \<Rightarrow> error + int" where
  "sampleParseUnits a d =
     (case (if a = [] then None else digitsValue 0 a) of
        Some n \<Rightarrow> Inr (n * 10 ^ nat d)
      | None \<Rightarrow> Inl (Error 0 ''InvalidDecimalNumberError''))"

definition sampleEnv :: env where
  "sampleEnv =
     \<lparr> parseUnits = sampleParseUnits, writeApprovalThrows = (\<lambda>r. None),
       writeTransactionThrows = (\<lambda>r. None) \<rparr>"

definition sampleApproval :: ApprovalConfig where
  "sampleApproval =
     \<lparr> tokenAddress = Address ''70'', tokenAbi = [''approve''],
       spenderAddress = Address ''5e'', amount = AmountString ''25'', decimals = None \<rparr>"

definition sampleTransaction :: TransactionConfig where
  "sampleTransaction =
     \<lparr> contractAddress = Address ''5e'', contractAbi = [''invest''],
       functionName = ''invest'', args = Some [ArgBigInt 25] \<rparr>"

definition withApprovalProps :: UseUniversalTransactionParams where
  "withApprovalProps =
     \<lparr> approvalConfig = Some sampleApproval, transactionConfig = sampleTransaction,
       onApprovalSuccess = Some (Callback 1), onTransactionSuccess = Some (Callback 2),
       onApprovalError = Some (Callback 3), onTransactionError = Some (Callback 4),
       onFinalSuccess = Some (Callback 5) \<rparr>"

definition directProps :: UseUniversalTransactionParams where
  "directProps = withApprovalProps\<lparr>approvalConfig := None\<rparr>"

definition idle :: wagmi where
  "idle =
     \<lparr> approvalData = None, approvalWriteError = None, transactionData = None,
       transactionWriteError = None, isApprovingConfirming = False,
       isApprovalSuccess = False, approvalConfirmError = None,
       isTransactionConfirming = False, isTransactionSuccess = False,
       transactionConfirmError = None \<rparr>"

definition approvalSent :: wagmi where
  "approvalSent = idle\<lparr>approvalData := Some (Hash ''a1''), isApprovingConfirming := True\<rparr>"

definition approvalMined :: wagmi where
  "approvalMined = idle\<lparr>approvalData := Some (Hash ''a1''), isApprovalSuccess := True\<rparr>"

definition transactionSent :: wagmi where
  "transactionSent =
     approvalMined\<lparr>transactionData := Some (Hash ''b2''), isTransactionConfirming := True\<rparr>"

definition transactionMined :: wagmi where
  "transactionMined =
     approvalMined\<lparr>transactionData := Some (Hash ''b2''), isTransactionSuccess := True\<rparr>"

text \<open>After \<^verbatim>\<open>execute\<close>: the approval is sent and mined, then the transaction is sent and
  mined.\<close>

definition approvedFlow :: "event list" where
  "approvedFlow =
     [Render withApprovalProps approvalSent, Render withApprovalProps approvalSent,
      Render withApprovalProps approvalMined, Render withApprovalProps approvalMined,
      Render withApprovalProps transactionSent, Render withApprovalProps transactionSent,
      Render withApprovalProps transactionMined]"






text \<open>The hook is mounted, \<^verbatim>\<open>execute\<close> is called, and the approved flow follows.\<close>

definition approvedEvents :: "event list" where
  "approvedEvents = Render withApprovalProps idle # Execute withApprovalProps # approvedFlow"


text \<open>An amount given as a \<^verbatim>\<open>bigint\<close>, and an amount string that is no decimal number.\<close>

definition bigintApproval :: ApprovalConfig where
  "bigintApproval = sampleApproval\<lparr>amount := AmountBigInt 5\<rparr>"

definition bigintProps :: UseUniversalTransactionParams where
  "bigintProps = withApprovalProps\<lparr>approvalConfig := Some bigintApproval\<rparr>"

definition unparsableApproval :: ApprovalConfig where
  "unparsableApproval = sampleApproval\<lparr>amount := AmountString ''abc''\<rparr>"

definition unparsableProps :: UseUniversalTransactionParams where
  "unparsableProps = withApprovalProps\<lparr>approvalConfig := Some unparsableApproval\<rparr>"











section \<open>What each function of the hook emits and stores\<close>

lemma transactionWrites_append [simp]:
  "transactionWrites (xs @ ys) = transactionWrites xs @ transactionWrites ys"
  by (induction xs rule: transactionWrites.induct) simp_all

lemma approvalWrites_append [simp]:
  "approvalWrites (xs @ ys) = approvalWrites xs @ approvalWrites ys"
  by (induction xs rule: approvalWrites.induct) simp_all

lemma transactionWrites_invoke [simp]:
  "(\<And>c r. call c \<noteq> WriteTransaction r) \<Longrightarrow> transactionWrites (invoke cb call) = []"
  by (cases cb; simp add: invoke_def; cases "call (the cb)"; simp)

lemma approvalWrites_invoke [simp]:
  "(\<And>c r. call c \<noteq> WriteApproval r) \<Longrightarrow> approvalWrites (invoke cb call) = []"
  by (cases cb; simp add: invoke_def; cases "call (the cb)"; simp)

lemma reset_notin_invoke [simp]:
  "(\<And>c. call c \<noteq> ResetTransaction) \<Longrightarrow> ResetTransaction \<notin> set (invoke cb call)"
  by (cases cb) (auto simp: invoke_def dest: sym)

lemma writes_failed [simp]:
  "transactionWrites (snd (approvalFailed p err q)) = transactionWrites (snd q)"
  "transactionWrites (snd (transactionFailed p err q)) = transactionWrites (snd q)"
  "approvalWrites (snd (approvalFailed p err q)) = approvalWrites (snd q)"
  "approvalWrites (snd (transactionFailed p err q)) = approvalWrites (snd q)"
  by (simp_all add: approvalFailed_def transactionFailed_def)

lemma hashes_failed [simp]:
  "transactionHash (fst (approvalFailed p err q)) = transactionHash (fst q)"
  "approvalHash (fst (approvalFailed p err q)) = approvalHash (fst q)"
  "transactionHash (fst (transactionFailed p err q)) = transactionHash (fst q)"
  "approvalHash (fst (transactionFailed p err q)) = approvalHash (fst q)"
  by (simp_all add: approvalFailed_def transactionFailed_def)

lemma reset_failed [simp]:
  "ResetTransaction \<in> set (snd (approvalFailed p err q)) = (ResetTransaction \<in> set (snd q))"
  "ResetTransaction \<in> set (snd (transactionFailed p err q)) = (ResetTransaction \<in> set (snd q))"
  by (simp_all add: approvalFailed_def transactionFailed_def)

lemma transactionWrites_executeTransaction:
  "transactionWrites (snd (executeTransaction e p q)) =
     transactionWrites (snd q) @ [transactionRequest p]"
  by (simp add: executeTransaction_def transactionRequest_def Let_def split: option.splits)

lemma approvalWrites_executeTransaction:
  "approvalWrites (snd (executeTransaction e p q)) = approvalWrites (snd q)"
  by (simp add: executeTransaction_def Let_def split: option.splits)

lemma transactionWrites_executeApproval:
  "transactionWrites (snd (executeApproval e p q)) = transactionWrites (snd q)"
  by (simp add: executeApproval_def Let_def split: option.splits sum.splits)

lemma hashes_executeTransaction:
  "transactionHash (fst (executeTransaction e p q)) = transactionHash (fst q)"
  "approvalHash (fst (executeTransaction e p q)) = approvalHash (fst q)"
  by (simp_all add: executeTransaction_def Let_def split: option.splits)

lemma hashes_executeApproval:
  "transactionHash (fst (executeApproval e p q)) = transactionHash (fst q)"
  "approvalHash (fst (executeApproval e p q)) = approvalHash (fst q)"
  by (simp_all add: executeApproval_def Let_def split: option.splits sum.splits)

lemma reset_executeTransaction:
  "ResetTransaction \<in> set (snd (executeTransaction e p q)) = (ResetTransaction \<in> set (snd q))"
  by (simp add: executeTransaction_def Let_def split: option.splits)

lemmas effect_defs =
  effect_approvalData_def effect_transactionData_def effect_approvalWriteError_def
  effect_transactionWriteError_def effect_approvalConfirmError_def
  effect_transactionConfirmError_def effect_approvalSuccess_def effect_transactionSuccess_def

lemma transactionWrites_effects:
  "transactionWrites (snd (effect_approvalData pr cur q)) = transactionWrites (snd q)"
  "transactionWrites (snd (effect_transactionData pr cur q)) = transactionWrites (snd q)"
  "transactionWrites (snd (effect_approvalWriteError pr cur q)) = transactionWrites (snd q)"
  "transactionWrites (snd (effect_transactionWriteError pr cur q)) = transactionWrites (snd q)"
  "transactionWrites (snd (effect_approvalConfirmError pr cur q)) = transactionWrites (snd q)"
  "transactionWrites (snd (effect_transactionConfirmError pr cur q)) = transactionWrites (snd q)"
  "transactionWrites (snd (effect_transactionSuccess pr cur q)) = transactionWrites (snd q)"
  by (simp_all add: effect_defs split: option.splits)

lemma transactionWrites_effect_approvalSuccess:
  "transactionWrites (snd (effect_approvalSuccess e pr cur q)) =
     transactionWrites (snd q) @
     (if approvalSuccessFires pr cur then [transactionRequest (props cur)] else [])"
  by (auto simp add: effect_approvalSuccess_def approvalSuccessFires_def
        transactionWrites_executeTransaction approvalSuccessCondition_def split: option.splits)

lemma approvalWrites_effects:
  "approvalWrites (snd (effect_approvalData pr cur q)) = approvalWrites (snd q)"
  "approvalWrites (snd (effect_transactionData pr cur q)) = approvalWrites (snd q)"
  "approvalWrites (snd (effect_approvalWriteError pr cur q)) = approvalWrites (snd q)"
  "approvalWrites (snd (effect_transactionWriteError pr cur q)) = approvalWrites (snd q)"
  "approvalWrites (snd (effect_approvalConfirmError pr cur q)) = approvalWrites (snd q)"
  "approvalWrites (snd (effect_transactionConfirmError pr cur q)) = approvalWrites (snd q)"
  "approvalWrites (snd (effect_approvalSuccess e pr cur q)) = approvalWrites (snd q)"
  "approvalWrites (snd (effect_transactionSuccess pr cur q)) = approvalWrites (snd q)"
  by (simp_all add: effect_defs approvalWrites_executeTransaction split: option.splits)

lemma reset_effects:
  "ResetTransaction \<in> set (snd (effect_approvalData pr cur q)) = (ResetTransaction \<in> set (snd q))"
  "ResetTransaction \<in> set (snd (effect_transactionData pr cur q)) = (ResetTransaction \<in> set (snd q))"
  "ResetTransaction \<in> set (snd (effect_approvalWriteError pr cur q)) = (ResetTransaction \<in> set (snd q))"
  "ResetTransaction \<in> set (snd (effect_transactionWriteError pr cur q)) = (ResetTransaction \<in> set (snd q))"
  "ResetTransaction \<in> set (snd (effect_approvalConfirmError pr cur q)) = (ResetTransaction \<in> set (snd q))"
  "ResetTransaction \<in> set (snd (effect_transactionConfirmError pr cur q)) = (ResetTransaction \<in> set (snd q))"
  "ResetTransaction \<in> set (snd (effect_approvalSuccess e pr cur q)) = (ResetTransaction \<in> set (snd q))"
  "ResetTransaction \<in> set (snd (effect_transactionSuccess pr cur q)) = (ResetTransaction \<in> set (snd q))"
  by (simp_all add: effect_defs reset_executeTransaction split: option.splits)

lemma hashes_effects:
  "transactionHash (fst (effect_approvalData pr cur q)) = transactionHash (fst q)"
  "approvalHash (fst (effect_transactionData pr cur q)) = approvalHash (fst q)"
  "transactionHash (fst (effect_approvalWriteError pr cur q)) = transactionHash (fst q)"
  "approvalHash (fst (effect_approvalWriteError pr cur q)) = approvalHash (fst q)"
  "transactionHash (fst (effect_transactionWriteError pr cur q)) = transactionHash (fst q)"
  "approvalHash (fst (effect_transactionWriteError pr cur q)) = approvalHash (fst q)"
  "transactionHash (fst (effect_approvalConfirmError pr cur q)) = transactionHash (fst q)"
  "approvalHash (fst (effect_approvalConfirmError pr cur q)) = approvalHash (fst q)"
  "transactionHash (fst (effect_transactionConfirmError pr cur q)) = transactionHash (fst q)"
  "approvalHash (fst (effect_transactionConfirmError pr cur q)) = approvalHash (fst q)"
  "transactionHash (fst (effect_approvalSuccess e pr cur q)) = transactionHash (fst q)"
  "approvalHash (fst (effect_approvalSuccess e pr cur q)) = approvalHash (fst q)"
  "transactionHash (fst (effect_transactionSuccess pr cur q)) = transactionHash (fst q)"
  "approvalHash (fst (effect_transactionSuccess pr cur q)) = approvalHash (fst q)"
  by (simp_all add: effect_defs hashes_executeTransaction split: option.splits)


lemma transactionHash_effect_transactionData:
  "transactionHash (fst (effect_transactionData pr cur q)) =
     (if changed pr cur (\<lambda>r. transactionData (client r)) \<and> transactionData (client cur) \<noteq> None
      then transactionData (client cur) else transactionHash (fst q))"
  by (simp add: effect_transactionData_def split: option.splits)


section \<open>What a render and a handler emit and store\<close>

lemma transactionWrites_render:
  "transactionWrites (snd (render e p w m)) =
     (if approvalSuccessFires (lastRender m) \<lparr> props = p, client = w, cells = state m \<rparr>
      then [transactionRequest p] else [])"
  by (simp add: render_def runEffects_def Let_def transactionWrites_effects
        transactionWrites_effect_approvalSuccess)

lemma approvalWrites_render: "approvalWrites (snd (render e p w m)) = []"
  by (simp add: render_def runEffects_def Let_def approvalWrites_effects)

lemma reset_notin_render: "ResetTransaction \<notin> set (snd (render e p w m))"
  by (simp add: render_def runEffects_def Let_def reset_effects)


lemma transactionHash_render:
  "transactionHash (state (fst (render e p w m))) =
     (if changed (lastRender m) \<lparr> props = p, client = w, cells = state m \<rparr>
            (\<lambda>r. transactionData (client r)) \<and> transactionData w \<noteq> None
      then transactionData w else transactionHash (state m))"
  by (auto simp add: render_def runEffects_def Let_def hashes_effects
        transactionHash_effect_transactionData)


lemma handler_simps:
  "state (fst (handler f m)) = fst (f (state m, []))"
  "lastRender (fst (handler f m)) = lastRender m"
  "snd (handler f m) = snd (f (state m, []))"
  by (simp_all add: handler_def Let_def)

lemma transactionWrites_execute:
  "transactionWrites (snd (execute e p (s, []))) =
     (if approvalConfig p \<noteq> None then [] else [transactionRequest p])"
  by (simp add: execute_def Let_def transactionWrites_executeApproval
        transactionWrites_executeTransaction)

lemma hashes_execute:
  "transactionHash (fst (execute e p q)) = None"
  "approvalHash (fst (execute e p q)) = None"
  by (simp_all add: execute_def Let_def hashes_executeApproval hashes_executeTransaction)

lemma transactionWrites_step:
  "transactionWrites (snd (step e ev m)) =
     (case ev of
        Render p w \<Rightarrow>
          (if approvalSuccessFires (lastRender m) \<lparr> props = p, client = w, cells = state m \<rparr>
           then [transactionRequest p] else [])
      | Execute p \<Rightarrow> (if approvalConfig p \<noteq> None then [] else [transactionRequest p])
      | _ \<Rightarrow> [])"
  by (cases ev)
     (simp_all add: transactionWrites_render handler_simps transactionWrites_execute reset_def
        approvalOnError_def transactionOnError_def)

lemma allEmitted_simps [simp]:
  "allEmitted [] = []"
  "allEmitted (en # ens) = emitted en @ allEmitted ens"
  by (simp_all add: allEmitted_def)


section \<open>The transaction client's handle\<close>

lemma submitted_origin: "submitted sub as \<Longrightarrow> sub \<or> transactionWrites as \<noteq> []"
  by (induction sub as rule: submitted.induct) simp_all

lemma submitted_without_reset:
  "ResetTransaction \<notin> set as \<Longrightarrow> sub \<Longrightarrow> submitted sub as"
  by (induction sub as rule: submitted.induct) simp_all

lemma submitted_failed [simp]:
  "submitted sub (snd (approvalFailed p err (s, []))) = sub"
  "submitted sub (snd (transactionFailed p err (s, []))) = sub"
  by (cases "onApprovalError p"; cases "onTransactionError p";
      simp add: approvalFailed_def transactionFailed_def invoke_def)+

lemma step_keeps_contract:
  assumes "case ev of Render p w \<Rightarrow> transactionData w = None \<or> sub | _ \<Rightarrow> True"
      and "transactionHash (state m) \<noteq> None \<longrightarrow> sub"
  shows "transactionHash (state (fst (step e ev m))) \<noteq> None \<longrightarrow>
           sub \<and> submitted sub (snd (step e ev m))"
proof (cases ev)
  case (Render p w)
  with assms show ?thesis
    by (auto simp add: transactionHash_render reset_notin_render submitted_without_reset
          split: if_splits)
next
  case (Execute p)
  then show ?thesis by (simp add: handler_simps hashes_execute)
next
  case Reset
  then show ?thesis by (simp add: handler_simps reset_def)
next
  case (ApprovalWriteFailed p err)
  with assms show ?thesis by (simp add: handler_simps approvalOnError_def)
next
  case (TransactionWriteFailed p err)
  with assms show ?thesis by (simp add: handler_simps transactionOnError_def)
qed

lemma step_submits_only_after_approval:
  assumes "approvalProvided ev" and "transactionWrites (snd (step e ev m)) \<noteq> []"
  shows "\<exists>p w. ev = Render p w \<and> isApprovalSuccess w \<and> approvalHash (state m) \<noteq> None"
  using assms
  by (auto simp add: transactionWrites_step approvalProvided_def approvalSuccessFires_def
        approvalSuccessCondition_def split: event.splits if_splits)

lemma run_submits_only_after_approval:
  assumes "list_all approvalProvided evs" and "en \<in> set (run e m evs)"
      and "transactionWrites (emitted en) \<noteq> []"
  shows "\<exists>p w. occurred en = Render p w \<and> isApprovalSuccess w \<and>
               approvalHash (state (before en)) \<noteq> None"
  using assms
proof (induction evs arbitrary: m)
  case Nil
  then show ?case by simp
next
  case (Cons ev evs)
  show ?case
  proof (cases "en \<in> set (run e (fst (step e ev m)) evs)")
    case True
    with Cons show ?thesis by simp
  next
    case False
    with Cons.prems have en: "en = \<lparr> before = m, occurred = ev, emitted = snd (step e ev m),
        after = fst (step e ev m) \<rparr>"
      by (simp add: Let_def)
    from Cons.prems have "approvalProvided ev" by simp
    moreover from Cons.prems en have "transactionWrites (snd (step e ev m)) \<noteq> []" by simp
    ultimately show ?thesis
      using step_submits_only_after_approval [of ev e m] en by simp
  qed
qed

lemma run_waits_only_after_submission:
  assumes "transactionClientContract sub (run e m evs)"
      and "transactionHash (state m) \<noteq> None \<longrightarrow> sub"
      and "i < length (run e m evs)"
      and "transactionHash (state (after (run e m evs ! i))) \<noteq> None"
  shows "sub \<or> (\<exists>j<i. transactionWrites (emitted (run e m evs ! j)) \<noteq> [])"
  using assms
proof (induction evs arbitrary: m sub i)
  case Nil
  then show ?case by simp
next
  case (Cons ev evs)
  let ?m' = "fst (step e ev m)" and ?acts = "snd (step e ev m)"
  let ?sub' = "submitted sub ?acts"
  have here: "case ev of Render p w \<Rightarrow> transactionData w = None \<or> sub | _ \<Rightarrow> True"
    using Cons.prems(1) by (simp add: Let_def)
  have keep: "transactionHash (state ?m') \<noteq> None \<longrightarrow> sub \<and> ?sub'"
    using step_keeps_contract [OF here Cons.prems(2)] .
  show ?case
  proof (cases i)
    case 0
    with Cons.prems(4) keep show ?thesis by (simp add: Let_def)
  next
    case (Suc k)
    have "?sub' \<or> (\<exists>j<k. transactionWrites (emitted (run e ?m' evs ! j)) \<noteq> [])"
    proof (rule Cons.IH)
      show "transactionClientContract ?sub' (run e ?m' evs)"
        using Cons.prems(1) by (simp add: Let_def)
      show "transactionHash (state ?m') \<noteq> None \<longrightarrow> ?sub'" using keep by blast
      show "k < length (run e ?m' evs)" using Cons.prems(3) Suc by (simp add: Let_def)
      show "transactionHash (state (after (run e ?m' evs ! k))) \<noteq> None"
        using Cons.prems(4) Suc by (simp add: Let_def)
    qed
    then show ?thesis
    proof
      assume "?sub'"
      then have "sub \<or> transactionWrites ?acts \<noteq> []" by (rule submitted_origin)
      then show ?thesis
      proof
        assume sub then show ?thesis ..
      next
        assume "transactionWrites ?acts \<noteq> []"
        then have "0 < i \<and> transactionWrites (emitted (run e m (ev # evs) ! 0)) \<noteq> []"
          using Suc by (simp add: Let_def)
        then show ?thesis by blast
      qed
    next
      assume "\<exists>j<k. transactionWrites (emitted (run e ?m' evs ! j)) \<noteq> []"
      then obtain j where "j < k" "transactionWrites (emitted (run e ?m' evs ! j)) \<noteq> []"
        by blast
      then have "Suc j < i \<and> transactionWrites (emitted (run e m (ev # evs) ! Suc j)) \<noteq> []"
        using Suc by (simp add: Let_def)
      then show ?thesis by blast
    qed
  qed
qed


section \<open>What \<^verbatim>\<open>execute\<close> and \<^verbatim>\<open>reset\<close> do\<close>

lemma reset_is_initial: "reset (s, acts) = (initialState, acts @ [ResetApproval, ResetTransaction])"
  by (cases s) (simp add: reset_def initialState_def)

lemma execute_after_reset:
  "execute e p q =
     (if approvalConfig p \<noteq> None then executeApproval e p (reset q)
      else executeTransaction e p (reset q))"
  by (cases "fst q") (simp add: execute_def reset_def Let_def)

lemma executeApproval_extends: "\<exists>rest. snd (executeApproval e p q) = snd q @ rest"
  by (simp add: executeApproval_def approvalFailed_def Let_def split: option.splits sum.splits)

lemma executeTransaction_extends: "\<exists>rest. snd (executeTransaction e p q) = snd q @ rest"
  by (simp add: executeTransaction_def transactionFailed_def Let_def split: option.splits)

lemma approvalWrites_execute_direct:
  "approvalConfig p = None \<Longrightarrow> approvalWrites (snd (execute e p (s, []))) = []"
  by (simp add: execute_def Let_def approvalWrites_executeTransaction)

lemma approval_fields_executeTransaction:
  "isApproving (fst (executeTransaction e p q)) = isApproving (fst q)"
  "approvalError (fst (executeTransaction e p q)) = approvalError (fst q)"
  by (simp_all add: executeTransaction_def transactionFailed_def Let_def split: option.splits)

lemma approval_entered_executeApproval:
  "approvalConfig p \<noteq> None \<Longrightarrow>
   isApproving (fst (executeApproval e p q)) \<or> approvalError (fst (executeApproval e p q)) \<noteq> None"
  by (auto simp add: executeApproval_def approvalFailed_def Let_def
        split: option.splits sum.splits)

lemma approval_entered_execute:
  "(isApproving (fst (execute e p (s, []))) \<or> approvalError (fst (execute e p (s, []))) \<noteq> None) =
     (approvalConfig p \<noteq> None)"
proof (cases "approvalConfig p")
  case None
  then show ?thesis
    by (simp add: execute_after_reset reset_is_initial approval_fields_executeTransaction
          initialState_def)
next
  case (Some c)
  then show ?thesis
    using approval_entered_executeApproval [of p e "reset (s, [])"]
    by (simp add: execute_after_reset)
qed

lemma approvalWrites_step:
  "approvalOmitted ev \<Longrightarrow> approvalWrites (snd (step e ev m)) = []"
  by (cases ev)
     (simp_all add: approvalOmitted_def approvalWrites_render handler_simps
        approvalWrites_execute_direct reset_def approvalOnError_def transactionOnError_def)

lemma approvalWrites_run:
  "list_all approvalOmitted evs \<Longrightarrow> approvalWrites (allEmitted (run e m evs)) = []"
  by (induction evs arbitrary: m) (simp_all add: Let_def approvalWrites_step)

section \<open>One execution of the approval flow\<close>















section \<open>A failed approval\<close>

















section \<open>The order of the two writes\<close>

text \<open>C1: with an \<^verbatim>\<open>approvalConfig\<close>, the dependent transaction is submitted only after
  the approval's confirmation is observed. In every run of the hook in which an
  \<^verbatim>\<open>approvalConfig\<close> is provided throughout, an entry that calls the transaction write
  primitive is a render that sees \<^verbatim>\<open>isApprovalSuccess\<close> true and an \<^verbatim>\<open>approvalHash\<close>
  set. And the hook waits for the dependent transaction's confirmation only then: when
  the run starts with no \<^verbatim>\<open>transactionHash\<close> and the transaction client reports a handle
  only for a submitted write, a \<^verbatim>\<open>transactionHash\<close> for the receipt watcher to wait on is
  stored only after such a render has submitted the transaction.\<close>

theorem transaction_submitted_only_after_approval_confirmed:
  assumes "list_all approvalProvided evs"
      and "transactionHash (state m) = None"
      and "transactionClientContract False (run e m evs)"
  shows "(en \<in> set (run e m evs) \<and> transactionWrites (emitted en) \<noteq> [] \<longrightarrow>
            (\<exists>p w. occurred en = Render p w \<and> isApprovalSuccess w \<and>
                   approvalHash (state (before en)) \<noteq> None)) \<and>
         (i < length (run e m evs) \<and>
          transactionHash (state (after (run e m evs ! i))) \<noteq> None \<longrightarrow>
            (\<exists>j<i. transactionWrites (emitted (run e m evs ! j)) \<noteq> [] \<and>
                   (\<exists>p w. occurred (run e m evs ! j) = Render p w \<and> isApprovalSuccess w \<and>
                          approvalHash (state (before (run e m evs ! j))) \<noteq> None)))"
proof (intro conjI impI)
  assume "en \<in> set (run e m evs) \<and> transactionWrites (emitted en) \<noteq> []"
  then show "\<exists>p w. occurred en = Render p w \<and> isApprovalSuccess w \<and>
                   approvalHash (state (before en)) \<noteq> None"
    using run_submits_only_after_approval [OF assms(1)] by blast
next
  assume i: "i < length (run e m evs) \<and>
             transactionHash (state (after (run e m evs ! i))) \<noteq> None"
  have "transactionHash (state m) \<noteq> None \<longrightarrow> False" using assms(2) by simp
  with assms(3) i
  have "False \<or> (\<exists>j<i. transactionWrites (emitted (run e m evs ! j)) \<noteq> [])"
    by (intro run_waits_only_after_submission) simp_all
  then obtain j where j: "j < i" "transactionWrites (emitted (run e m evs ! j)) \<noteq> []"
    by blast
  with i have "run e m evs ! j \<in> set (run e m evs)" by simp
  with j run_submits_only_after_approval [OF assms(1)]
  show "\<exists>j<i. transactionWrites (emitted (run e m evs ! j)) \<noteq> [] \<and>
              (\<exists>p w. occurred (run e m evs ! j) = Render p w \<and> isApprovalSuccess w \<and>
                     approvalHash (state (before (run e m evs ! j))) \<noteq> None)"
    by blast
qed

theorem transaction_submitted_only_after_approval_confirmed_witness:
  "list_all approvalProvided approvedEvents \<and>
   transactionHash (state mount) = None \<and>
   transactionClientContract False (run sampleEnv mount approvedEvents) \<and>
   run sampleEnv mount approvedEvents ! 4 \<in> set (run sampleEnv mount approvedEvents) \<and>
   transactionWrites (emitted (run sampleEnv mount approvedEvents ! 4)) =
     [transactionRequest withApprovalProps] \<and>
   (\<exists>p w. occurred (run sampleEnv mount approvedEvents ! 4) = Render p w \<and>
          isApprovalSuccess w \<and>
          approvalHash (state (before (run sampleEnv mount approvedEvents ! 4))) \<noteq> None) \<and>
   (6::nat) < length (run sampleEnv mount approvedEvents) \<and>
   transactionHash (state (after (run sampleEnv mount approvedEvents ! 6))) =
     Some (Hash ''b2'') \<and>
   (\<exists>j<6. transactionWrites (emitted (run sampleEnv mount approvedEvents ! j)) \<noteq> [] \<and>
          (\<exists>p w. occurred (run sampleEnv mount approvedEvents ! j) = Render p w \<and>
                 isApprovalSuccess w \<and>
                 approvalHash (state (before (run sampleEnv mount approvedEvents ! j))) \<noteq>
                   None))"
proof -
  have h1: "list_all approvalProvided approvedEvents" by code_simp
  have h2: "transactionHash (state mount) = None" by code_simp
  have h3: "transactionClientContract False (run sampleEnv mount approvedEvents)"
    by code_simp
  have e1: "run sampleEnv mount approvedEvents ! 4 \<in> set (run sampleEnv mount approvedEvents)"
    by code_simp
  have e2: "transactionWrites (emitted (run sampleEnv mount approvedEvents ! 4)) =
              [transactionRequest withApprovalProps]"
    by code_simp
  have e3: "(6::nat) < length (run sampleEnv mount approvedEvents)" by code_simp
  have e4: "transactionHash (state (after (run sampleEnv mount approvedEvents ! 6))) =
              Some (Hash ''b2'')"
    by code_simp
  from e2 have e2': "transactionWrites (emitted (run sampleEnv mount approvedEvents ! 4)) \<noteq> []"
    by simp
  from e4 have e4': "transactionHash (state (after (run sampleEnv mount approvedEvents ! 6))) \<noteq>
                       None"
    by simp
  note inst = transaction_submitted_only_after_approval_confirmed [OF h1 h2 h3,
      of "run sampleEnv mount approvedEvents ! 4" 6]
  from inst e1 e2' have c1: "\<exists>p w. occurred (run sampleEnv mount approvedEvents ! 4) = Render p w \<and>
          isApprovalSuccess w \<and>
          approvalHash (state (before (run sampleEnv mount approvedEvents ! 4))) \<noteq> None"
    by blast
  from inst e3 e4' have c2: "\<exists>j<6. transactionWrites (emitted (run sampleEnv mount approvedEvents ! j)) \<noteq> [] \<and>
          (\<exists>p w. occurred (run sampleEnv mount approvedEvents ! j) = Render p w \<and>
                 isApprovalSuccess w \<and>
                 approvalHash (state (before (run sampleEnv mount approvedEvents ! j))) \<noteq>
                   None)"
    by blast
  from h1 h2 h3 e1 e2 c1 e3 e4 c2 show ?thesis by blast
qed









section \<open>The two actions\<close>

text \<open>C3: without an \<^verbatim>\<open>approvalConfig\<close>, \<^verbatim>\<open>execute\<close> submits the dependent transaction
  directly (exactly the request built from \<^verbatim>\<open>transactionConfig\<close>) and calls no approval
  write, and in a run in which the hook never has an \<^verbatim>\<open>approvalConfig\<close> the approval
  write primitive is never called at all. With an \<^verbatim>\<open>approvalConfig\<close>, \<^verbatim>\<open>execute\<close> is
  the reset followed by \<^verbatim>\<open>executeApproval\<close>, and submits no transaction. After
  \<^verbatim>\<open>execute\<close> the hook is in the approval step (approving, or with the approval's
  failure stored) if and only if an \<^verbatim>\<open>approvalConfig\<close> is provided.\<close>

theorem approval_step_iff_configured:
  "(approvalConfig p = None \<longrightarrow>
      approvalWrites (snd (execute e p (s, []))) = [] \<and>
      transactionWrites (snd (execute e p (s, []))) = [transactionRequest p]) \<and>
   (approvalConfig p \<noteq> None \<longrightarrow>
      execute e p (s, []) = executeApproval e p (reset (s, [])) \<and>
      transactionWrites (snd (execute e p (s, []))) = []) \<and>
   ((isApproving (fst (execute e p (s, []))) \<or> approvalError (fst (execute e p (s, []))) \<noteq> None) =
      (approvalConfig p \<noteq> None)) \<and>
   (list_all approvalOmitted evs \<longrightarrow> approvalWrites (allEmitted (run e m evs)) = [])"
proof (intro conjI impI)
  assume "approvalConfig p = None"
  then show "approvalWrites (snd (execute e p (s, []))) = []"
    by (rule approvalWrites_execute_direct)
next
  assume "approvalConfig p = None"
  then show "transactionWrites (snd (execute e p (s, []))) = [transactionRequest p]"
    by (simp add: transactionWrites_execute)
next
  assume "approvalConfig p \<noteq> None"
  then show "execute e p (s, []) = executeApproval e p (reset (s, []))"
    by (simp add: execute_after_reset)
next
  assume "approvalConfig p \<noteq> None"
  then show "transactionWrites (snd (execute e p (s, []))) = []"
    by (simp add: transactionWrites_execute)
next
  show "(isApproving (fst (execute e p (s, []))) \<or>
         approvalError (fst (execute e p (s, []))) \<noteq> None) = (approvalConfig p \<noteq> None)"
    by (rule approval_entered_execute)
next
  assume "list_all approvalOmitted evs"
  then show "approvalWrites (allEmitted (run e m evs)) = []"
    by (rule approvalWrites_run)
qed

theorem approval_step_iff_configured_witness:
  "approvalConfig directProps = None \<and>
   approvalWrites (snd (execute sampleEnv directProps (initialState, []))) = [] \<and>
   transactionWrites (snd (execute sampleEnv directProps (initialState, []))) =
     [transactionRequest directProps] \<and>
   approvalConfig withApprovalProps \<noteq> None \<and>
   execute sampleEnv withApprovalProps (initialState, []) =
     executeApproval sampleEnv withApprovalProps (reset (initialState, [])) \<and>
   transactionWrites (snd (execute sampleEnv withApprovalProps (initialState, []))) = [] \<and>
   isApproving (fst (execute sampleEnv withApprovalProps (initialState, []))) \<and>
   list_all approvalOmitted [Render directProps idle, Execute directProps,
     Render directProps transactionSent] \<and>
   approvalWrites (allEmitted (run sampleEnv mount [Render directProps idle, Execute directProps,
     Render directProps transactionSent])) = []"
proof -
  have a: "approvalConfig directProps = None" by code_simp
  have b: "approvalConfig withApprovalProps \<noteq> None" by code_simp
  have c: "list_all approvalOmitted [Render directProps idle, Execute directProps,
     Render directProps transactionSent]" by code_simp
  have d: "isApproving (fst (execute sampleEnv withApprovalProps (initialState, [])))"
    by code_simp
  from approval_step_iff_configured [of directProps sampleEnv initialState
      "[Render directProps idle, Execute directProps, Render directProps transactionSent]" mount]
    a c
  have "approvalWrites (snd (execute sampleEnv directProps (initialState, []))) = [] \<and>
   transactionWrites (snd (execute sampleEnv directProps (initialState, []))) =
     [transactionRequest directProps] \<and>
   approvalWrites (allEmitted (run sampleEnv mount [Render directProps idle, Execute directProps,
     Render directProps transactionSent])) = []"
    by blast
  moreover
  from approval_step_iff_configured [of withApprovalProps sampleEnv initialState "[]" mount] b
  have "execute sampleEnv withApprovalProps (initialState, []) =
     executeApproval sampleEnv withApprovalProps (reset (initialState, [])) \<and>
   transactionWrites (snd (execute sampleEnv withApprovalProps (initialState, []))) = []"
    by blast
  ultimately show ?thesis using a b c d by blast
qed

text \<open>C8: \<^verbatim>\<open>reset\<close> puts the six state cells back to their initial values and resets
  both write clients, and submits nothing. \<^verbatim>\<open>execute\<close> is that same clearing followed by
  the approval step or the transaction step: the two client resets are the first things
  it does, before any write, and what it does and stores does not depend on the state it
  was called in, so executing again after a failure starts fresh.\<close>

theorem execute_resets_first:
  "reset (s, acts) = (initialState, acts @ [ResetApproval, ResetTransaction]) \<and>
   execute e p (s, acts) =
     (if approvalConfig p \<noteq> None then executeApproval e p (reset (s, acts))
      else executeTransaction e p (reset (s, acts))) \<and>
   take 2 (snd (execute e p (s, []))) = [ResetApproval, ResetTransaction] \<and>
   execute e p (s, []) = execute e p (s', []) \<and>
   approvalWrites (snd (reset (s, []))) = [] \<and>
   transactionWrites (snd (reset (s, []))) = []"
proof -
  have fresh: "execute e p (s, []) =
      (if approvalConfig p \<noteq> None
       then executeApproval e p (initialState, [ResetApproval, ResetTransaction])
       else executeTransaction e p (initialState, [ResetApproval, ResetTransaction]))" for s
    by (simp add: execute_after_reset reset_is_initial)
  have "\<exists>rest. snd (execute e p (s, [])) = [ResetApproval, ResetTransaction] @ rest"
    using executeApproval_extends [of e p "(initialState, [ResetApproval, ResetTransaction])"]
      executeTransaction_extends [of e p "(initialState, [ResetApproval, ResetTransaction])"]
    by (cases "approvalConfig p") (simp_all add: fresh)
  then obtain rest where "snd (execute e p (s, [])) = [ResetApproval, ResetTransaction] @ rest"
    by blast
  then have "take 2 (snd (execute e p (s, []))) = [ResetApproval, ResetTransaction]"
    by simp
  moreover have "execute e p (s, []) = execute e p (s', [])"
    by (simp only: fresh)
  ultimately show ?thesis
    by (simp add: reset_is_initial execute_after_reset)
qed

section \<open>The returned flags\<close>

text \<open>C4: in the returned state, \<^verbatim>\<open>isComplete\<close> is true if and only if
  \<^verbatim>\<open>isTransactionSuccess\<close> is true and, when an \<^verbatim>\<open>approvalConfig\<close> is provided,
  \<^verbatim>\<open>isApprovalSuccess\<close> is true as well; without an \<^verbatim>\<open>approvalConfig\<close>, \<^verbatim>\<open>isComplete\<close>
  equals \<^verbatim>\<open>isTransactionSuccess\<close>.\<close>

theorem isComplete_iff_confirmed:
  "(TransactionState.isComplete (useUniversalTransaction p w s) \<longleftrightarrow>
      TransactionState.isTransactionSuccess (useUniversalTransaction p w s) \<and>
      (approvalConfig p \<noteq> None \<longrightarrow>
         TransactionState.isApprovalSuccess (useUniversalTransaction p w s))) \<and>
   (approvalConfig p = None \<longrightarrow>
      TransactionState.isComplete (useUniversalTransaction p w s) =
      TransactionState.isTransactionSuccess (useUniversalTransaction p w s))"
  by (auto simp add: useUniversalTransaction_def)

theorem isComplete_iff_confirmed_witness:
  "approvalConfig withApprovalProps \<noteq> None \<and>
   TransactionState.isTransactionSuccess
     (useUniversalTransaction withApprovalProps transactionMined initialState) \<and>
   TransactionState.isApprovalSuccess
     (useUniversalTransaction withApprovalProps transactionMined initialState) \<and>
   TransactionState.isComplete
     (useUniversalTransaction withApprovalProps transactionMined initialState) \<and>
   approvalConfig directProps = None \<and>
   TransactionState.isComplete
     (useUniversalTransaction directProps (idle\<lparr>isTransactionSuccess := True\<rparr>) initialState) =
   TransactionState.isTransactionSuccess
     (useUniversalTransaction directProps (idle\<lparr>isTransactionSuccess := True\<rparr>) initialState)"
proof -
  have a: "approvalConfig withApprovalProps \<noteq> None" by code_simp
  have b: "TransactionState.isTransactionSuccess
     (useUniversalTransaction withApprovalProps transactionMined initialState)" by code_simp
  have c: "TransactionState.isApprovalSuccess
     (useUniversalTransaction withApprovalProps transactionMined initialState)" by code_simp
  have d: "approvalConfig directProps = None" by code_simp
  from isComplete_iff_confirmed [of withApprovalProps transactionMined initialState] b c
  have "TransactionState.isComplete
     (useUniversalTransaction withApprovalProps transactionMined initialState)"
    by blast
  moreover
  from isComplete_iff_confirmed [of directProps "idle\<lparr>isTransactionSuccess := True\<rparr>" initialState] d
  have "TransactionState.isComplete
     (useUniversalTransaction directProps (idle\<lparr>isTransactionSuccess := True\<rparr>) initialState) =
   TransactionState.isTransactionSuccess
     (useUniversalTransaction directProps (idle\<lparr>isTransactionSuccess := True\<rparr>) initialState)"
    by blast
  ultimately show ?thesis using a b c d by blast
qed

text \<open>C5: the overall \<^verbatim>\<open>isLoading\<close> flag of the returned state is true exactly when at
  least one of the four per-step loading flags of that same returned state
  (\<^verbatim>\<open>isApproving\<close>, \<^verbatim>\<open>isApprovingConfirming\<close>, \<^verbatim>\<open>isTransacting\<close>,
  \<^verbatim>\<open>isTransactionConfirming\<close>) is true.\<close>

theorem isLoading_iff_any_step_loading:
  "TransactionState.isLoading (useUniversalTransaction p w s) =
     (TransactionState.isApproving (useUniversalTransaction p w s) \<or>
      TransactionState.isApprovingConfirming (useUniversalTransaction p w s) \<or>
      TransactionState.isTransacting (useUniversalTransaction p w s) \<or>
      TransactionState.isTransactionConfirming (useUniversalTransaction p w s))"
  by (simp add: useUniversalTransaction_def)

section \<open>The approval call\<close>

text \<open>C6, as the code has it: for every \<^verbatim>\<open>approvalConfig\<close> whose amount is a \<^verbatim>\<open>bigint\<close>,
  or a string that \<^verbatim>\<open>parseUnits\<close> converts, \<^verbatim>\<open>executeApproval\<close> submits exactly one
  call: to \<^verbatim>\<open>tokenAddress\<close>, with \<^verbatim>\<open>tokenAbi\<close>, of the function \<^verbatim>\<open>approve\<close>, with
  exactly the two arguments \<^verbatim>\<open>[spenderAddress, approvalAmount]\<close>. When \<^verbatim>\<open>parseUnits\<close>
  throws on the amount, the \<^verbatim>\<open>catch\<close> block runs instead: no call is submitted, the
  error is stored in \<^verbatim>\<open>approvalError\<close> and \<^verbatim>\<open>isApproving\<close> is false again.\<close>

theorem approve_call_shape:
  assumes "approvalConfig p = Some c"
  shows "approvalWrites (snd (executeApproval e p (s, []))) =
           (case approvalAmount e c of
              Inr n \<Rightarrow>
                [\<lparr> address = tokenAddress c, abi = tokenAbi c, functionName = ''approve'',
                   args = [ArgAddress (spenderAddress c), ArgBigInt n] \<rparr>]
            | Inl err \<Rightarrow> []) \<and>
         (approvalAmount e c = Inl err \<longrightarrow>
            approvalError (fst (executeApproval e p (s, []))) = Some err \<and>
            \<not> isApproving (fst (executeApproval e p (s, []))))"
  using assms
  by (auto simp add: executeApproval_def approvalFailed_def Let_def
        split: sum.splits option.splits)

theorem approve_call_shape_witness:
  "approvalConfig withApprovalProps = Some sampleApproval \<and>
   approvalWrites (snd (executeApproval sampleEnv withApprovalProps (initialState, []))) =
     [\<lparr> address = Address ''70'', abi = [''approve''], functionName = ''approve'',
        args = [ArgAddress (Address ''5e''), ArgBigInt 25000000000000000000] \<rparr>] \<and>
   approvalConfig unparsableProps = Some unparsableApproval \<and>
   approvalAmount sampleEnv unparsableApproval = Inl (Error 0 ''InvalidDecimalNumberError'') \<and>
   approvalWrites (snd (executeApproval sampleEnv unparsableProps (initialState, []))) = [] \<and>
   approvalError (fst (executeApproval sampleEnv unparsableProps (initialState, []))) =
     Some (Error 0 ''InvalidDecimalNumberError'')"
proof -
  have a: "approvalConfig withApprovalProps = Some sampleApproval" by code_simp
  have b: "approvalConfig unparsableProps = Some unparsableApproval" by code_simp
  have v1: "approvalAmount sampleEnv sampleApproval = Inr 25000000000000000000" by code_simp
  have v2: "approvalAmount sampleEnv unparsableApproval =
              Inl (Error 0 ''InvalidDecimalNumberError'')" by code_simp
  have f: "tokenAddress sampleApproval = Address ''70'' \<and> tokenAbi sampleApproval = [''approve''] \<and>
           spenderAddress sampleApproval = Address ''5e''" by code_simp
  from approve_call_shape [OF a, of sampleEnv initialState] v1 f
  have r1: "approvalWrites (snd (executeApproval sampleEnv withApprovalProps (initialState, []))) =
     [\<lparr> address = Address ''70'', abi = [''approve''], functionName = ''approve'',
        args = [ArgAddress (Address ''5e''), ArgBigInt 25000000000000000000] \<rparr>]"
    by simp
  from approve_call_shape [OF b, of sampleEnv initialState
      "Error 0 ''InvalidDecimalNumberError''"] v2
  have r2: "approvalWrites (snd (executeApproval sampleEnv unparsableProps (initialState, []))) = [] \<and>
   approvalError (fst (executeApproval sampleEnv unparsableProps (initialState, []))) =
     Some (Error 0 ''InvalidDecimalNumberError'')"
    by simp
  from a b v2 r1 r2 show ?thesis by blast
qed

text \<open>C6 as stated (every \<^verbatim>\<open>approvalConfig\<close> leads to a submitted call) fails for an
  amount string that is no decimal number, such as \<^verbatim>\<open>'abc'\<close>: \<^verbatim>\<open>parseUnits\<close> throws,
  and \<^verbatim>\<open>executeApproval\<close> submits nothing and reports the error.\<close>

theorem approve_call_not_submitted_for_unparsable_amount:
  "approvalConfig unparsableProps = Some unparsableApproval \<and>
   amount unparsableApproval = AmountString ''abc'' \<and>
   approvalWrites (snd (executeApproval sampleEnv unparsableProps (initialState, []))) = [] \<and>
   snd (executeApproval sampleEnv unparsableProps (initialState, [])) =
     [OnApprovalError (Callback 3) (Error 0 ''InvalidDecimalNumberError'')] \<and>
   approvalError (fst (executeApproval sampleEnv unparsableProps (initialState, []))) =
     Some (Error 0 ''InvalidDecimalNumberError'')"
  by code_simp

text \<open>C10: the amount passed in the approval call is \<^verbatim>\<open>approvalConfig.amount\<close> itself
  when it is a \<^verbatim>\<open>bigint\<close>, and \<^verbatim>\<open>parseUnits(amount, decimals)\<close> when it is a string,
  with \<^verbatim>\<open>decimals\<close> 18 when the field is omitted (no call is made when \<^verbatim>\<open>parseUnits\<close>
  throws). When the amount is a \<^verbatim>\<open>bigint\<close>, changing the \<^verbatim>\<open>decimals\<close> field changes
  nothing of what \<^verbatim>\<open>executeApproval\<close> does or stores.\<close>

theorem approval_amount_passed:
  assumes "approvalConfig p = Some c"
  shows "map writeRequest.args (approvalWrites (snd (executeApproval e p (s, [])))) =
           (case amount c of
              AmountBigInt n \<Rightarrow> [[ArgAddress (spenderAddress c), ArgBigInt n]]
            | AmountString a \<Rightarrow>
                (case parseUnits e a (case decimals c of None \<Rightarrow> 18 | Some d \<Rightarrow> d) of
                   Inr n \<Rightarrow> [[ArgAddress (spenderAddress c), ArgBigInt n]]
                 | Inl err \<Rightarrow> [])) \<and>
         (amount c = AmountBigInt n \<longrightarrow>
            executeApproval e (p\<lparr>approvalConfig := Some (c\<lparr>decimals := d\<rparr>)\<rparr>) (s, []) =
            executeApproval e p (s, []))"
  using assms
  by (auto simp add: executeApproval_def approvalAmount_def approvalFailed_def Let_def
        split: amount.splits sum.splits option.splits)

theorem approval_amount_passed_witness:
  "approvalConfig withApprovalProps = Some sampleApproval \<and>
   map writeRequest.args
     (approvalWrites (snd (executeApproval sampleEnv withApprovalProps (initialState, [])))) =
     [[ArgAddress (Address ''5e''), ArgBigInt 25000000000000000000]] \<and>
   approvalConfig bigintProps = Some bigintApproval \<and>
   amount bigintApproval = AmountBigInt 5 \<and>
   map writeRequest.args
     (approvalWrites (snd (executeApproval sampleEnv bigintProps (initialState, [])))) =
     [[ArgAddress (Address ''5e''), ArgBigInt 5]] \<and>
   executeApproval sampleEnv
     (bigintProps\<lparr>approvalConfig := Some (bigintApproval\<lparr>decimals := Some 6\<rparr>)\<rparr>)
     (initialState, []) =
   executeApproval sampleEnv bigintProps (initialState, [])"
proof -
  have a: "approvalConfig withApprovalProps = Some sampleApproval" by code_simp
  have b: "approvalConfig bigintProps = Some bigintApproval" by code_simp
  have c: "amount bigintApproval = AmountBigInt 5" by code_simp
  have v1: "(case amount sampleApproval of
              AmountBigInt n \<Rightarrow> [[ArgAddress (spenderAddress sampleApproval), ArgBigInt n]]
            | AmountString a \<Rightarrow>
                (case parseUnits sampleEnv a
                        (case decimals sampleApproval of None \<Rightarrow> 18 | Some d \<Rightarrow> d) of
                   Inr n \<Rightarrow> [[ArgAddress (spenderAddress sampleApproval), ArgBigInt n]]
                 | Inl err \<Rightarrow> [])) =
            [[ArgAddress (Address ''5e''), ArgBigInt 25000000000000000000]]"
    by code_simp
  have v2: "(case amount bigintApproval of
              AmountBigInt n \<Rightarrow> [[ArgAddress (spenderAddress bigintApproval), ArgBigInt n]]
            | AmountString a \<Rightarrow>
                (case parseUnits sampleEnv a
                        (case decimals bigintApproval of None \<Rightarrow> 18 | Some d \<Rightarrow> d) of
                   Inr n \<Rightarrow> [[ArgAddress (spenderAddress bigintApproval), ArgBigInt n]]
                 | Inl err \<Rightarrow> [])) =
            [[ArgAddress (Address ''5e''), ArgBigInt 5]]"
    by code_simp
  from approval_amount_passed [OF a, of sampleEnv initialState] v1
  have r1: "map writeRequest.args
     (approvalWrites (snd (executeApproval sampleEnv withApprovalProps (initialState, [])))) =
     [[ArgAddress (Address ''5e''), ArgBigInt 25000000000000000000]]"
    by simp
  from approval_amount_passed [OF b, of sampleEnv initialState 5 "Some 6"] v2 c
  have r2: "map writeRequest.args
     (approvalWrites (snd (executeApproval sampleEnv bigintProps (initialState, [])))) =
     [[ArgAddress (Address ''5e''), ArgBigInt 5]] \<and>
   executeApproval sampleEnv
     (bigintProps\<lparr>approvalConfig := Some (bigintApproval\<lparr>decimals := Some 6\<rparr>)\<rparr>)
     (initialState, []) =
   executeApproval sampleEnv bigintProps (initialState, [])"
    by simp
  from a b c r1 r2 show ?thesis by blast
qed

section \<open>The read hook\<close>

text \<open>C7: \<^verbatim>\<open>useUniversalReadContract\<close> is the delegation the specification describes. It
  calls the read primitive once, with the query in which every omitted parameter is
  replaced by its default (\<^verbatim>\<open>args = []\<close>, the default address and ABI,
  \<^verbatim>\<open>enabled = true\<close>, \<^verbatim>\<open>watch = false\<close>, \<^verbatim>\<open>chainId\<close> as given), and each of the seven
  fields it returns is the primitive's field of the same name, unchanged.\<close>

theorem read_hook_is_delegation:
  "useUniversalReadContract useReadContract defaultAddress defaultAbi ps =
     readDelegateSpec useReadContract defaultAddress defaultAbi ps \<and>
   data (useUniversalReadContract useReadContract defaultAddress defaultAbi ps) =
     data (useReadContract (forwardedQuery defaultAddress defaultAbi ps)) \<and>
   UseUniversalReadContractReturn.isLoading
       (useUniversalReadContract useReadContract defaultAddress defaultAbi ps) =
     UseUniversalReadContractReturn.isLoading
       (useReadContract (forwardedQuery defaultAddress defaultAbi ps)) \<and>
   isError (useUniversalReadContract useReadContract defaultAddress defaultAbi ps) =
     isError (useReadContract (forwardedQuery defaultAddress defaultAbi ps)) \<and>
   error (useUniversalReadContract useReadContract defaultAddress defaultAbi ps) =
     error (useReadContract (forwardedQuery defaultAddress defaultAbi ps)) \<and>
   refetch (useUniversalReadContract useReadContract defaultAddress defaultAbi ps) =
     refetch (useReadContract (forwardedQuery defaultAddress defaultAbi ps)) \<and>
   isSuccess (useUniversalReadContract useReadContract defaultAddress defaultAbi ps) =
     isSuccess (useReadContract (forwardedQuery defaultAddress defaultAbi ps)) \<and>
   isFetching (useUniversalReadContract useReadContract defaultAddress defaultAbi ps) =
     isFetching (useReadContract (forwardedQuery defaultAddress defaultAbi ps))"
  by (simp add: useUniversalReadContract_def readDelegateSpec_def forwardedQuery_def
        orDefault_def UseUniversalReadContractReturn.truncate_def Let_def)

end
